theory Spec2Isabelle
  imports Main "HOL-Library.AList"
begin

section \<open>Values, errors and the response envelope\<close>

text \<open>
  Python exceptions are values of the type \<open>error\<close>; a function that can raise returns
  \<open>error + 'a\<close> with \<open>Inl\<close> for the exception. The constructors are the exception
  classes the sources raise (or the interpreter raises for them), with their message.
  \<open>TransportError\<close> stands for whatever the HTTP client raises.
\<close>

datatype error =
    AttributeError string
  | ValueError string
  | KeyError string
  | NotImplementedError string
  | TypeError string
  | JSONDecodeError string
  | TransportError string

type_synonym controller_ref = nat

text \<open>
  A Python value held by a resource object: a JSON scalar, a list, a plain dict or a
  nested \<open>BaseObject\<close>. An object carries its class attributes \<open>__fields__\<close> and
  \<open>__mutable__\<close> (\<open>cls_fields\<close> and \<open>cls_mutable\<close>; both are Python sets, and the list
  \<open>cls_fields\<close> is the set in the order in which it is iterated), its three private slots
  \<open>_attrs\<close>, \<open>_unpersisted_attributes\<close> and \<open>_controller\<close>, and the ordinary instance
  attributes set through \<open>object.__setattr__\<close>. Dicts are association lists in insertion
  order. The private slots are constructor arguments of the model, so a schema is taken
  not to declare a field with one of the three private names.
\<close>

datatype val =
    VNone
  | VBool bool
  | VInt int
  | VStr string
  | VList "val list"
  | VDict "(string \<times> val) list"
  | VObj obj
and obj =
  Obj (cls_fields: "string list")
      (cls_mutable: "string list")
      (attrs: "(string \<times> val) list")
      (unpersisted_attributes: "string set")
      (controller_slot: "controller_ref option")
      (other: "(string \<times> val) list")

text \<open>
  \<open>HttpResponse\<close> (src/caplena/http/http\_response.py). \<open>json_slot\<close> is the instance
  attribute \<open>_json\<close>: \<open>None\<close> while the attribute does not exist, \<open>Some VNone\<close> when it
  holds Python's \<open>None\<close>. \<open>resp_text\<close> is the attribute \<open>text\<close>.
\<close>

record HttpResponse =
  status_code :: int
  reason :: string
  resp_text :: "string option"
  headers :: "(string \<times> string) list option"
  json_slot :: "val option"

text \<open>\<open>__init__\<close> assigns the four public attributes and nothing else.\<close>

definition HttpResponse_init ::
  "int \<Rightarrow> string \<Rightarrow> string option \<Rightarrow> (string \<times> string) list option \<Rightarrow> HttpResponse" where
  "HttpResponse_init sc rs tx hs =
     \<lparr>status_code = sc, reason = rs, resp_text = tx, headers = hs, json_slot = None\<rparr>"

text \<open>
  The property \<open>json\<close>. \<open>json.loads\<close> is the standard library's parser, a parameter
  \<open>loads\<close> here. The result is the value returned (or the exception raised) and the
  response after the access. Reading \<open>self._json\<close> while the attribute does not exist
  raises \<open>AttributeError\<close>; the \<open>elif self.text\<close> branch (a text that is neither
  \<open>None\<close> nor empty) assigns the parsed value and falls off the end of the function,
  which returns \<open>None\<close>.
\<close>

definition json :: "(string \<Rightarrow> error + val) \<Rightarrow> HttpResponse \<Rightarrow> (error + val) \<times> HttpResponse" where
  "json loads self =
     (case json_slot self of
        None \<Rightarrow> (Inl (AttributeError ''HttpResponse object has no attribute _json''), self)
      | Some j \<Rightarrow>
          if j \<noteq> VNone then (Inr j, self)
          else
            (case resp_text self of
               None \<Rightarrow> (Inr VNone, self)
             | Some t \<Rightarrow>
                 if t \<noteq> [] then
                   (case loads t of
                      Inl e \<Rightarrow> (Inl e, self)
                    | Inr parsed \<Rightarrow> (Inr VNone, self\<lparr>json_slot := Some parsed\<rparr>))
                 else (Inr VNone, self)))"

section \<open>The request builder: headers\<close>

text \<open>
  \<open>ApiVersion\<close> (src/caplena/api.py) is an enum; \<open>ApiVersion_name\<close> is the member's
  \<open>name\<close>. \<open>replace\<close> is Python's \<open>str.replace\<close>: the occurrences of \<open>old\<close> are
  replaced from left to right, without overlap (and an empty \<open>old\<close> matches before
  every character and at the end).
\<close>

datatype ApiVersion = DEFAULT | VER_2021_12_01

fun ApiVersion_name :: "ApiVersion \<Rightarrow> string" where
  "ApiVersion_name DEFAULT = ''DEFAULT''"
| "ApiVersion_name VER_2021_12_01 = ''VER_2021_12_01''"

fun replace :: "string \<Rightarrow> string \<Rightarrow> string \<Rightarrow> string" where
  "replace old new [] = (if old = [] then new else [])"
| "replace old new (c # cs) =
     (if old = [] then new @ concat (map (\<lambda>x. x # new) (c # cs))
      else if take (length old) (c # cs) = old
        then new @ replace old new (drop (length old) (c # cs))
      else c # replace old new cs)"

definition version :: "ApiVersion \<Rightarrow> error + string" where
  "version self =
     (if ApiVersion_name self \<noteq> ApiVersion_name DEFAULT
      then Inr (replace ''_'' ''-'' (replace ''VER_'' [] (ApiVersion_name self)))
      else Inl (ValueError (''Cannot convert `'' @ ApiVersion_name self @ ''` to a valid version string.'')))"

text \<open>
  Header dicts are mutable objects that the caller and the callee share by reference, so
  they live in a store: a \<open>heap\<close> is the list of the dicts allocated so far and a
  reference is an index into it. \<open>new_dict\<close> allocates (\<open>{}\<close> and \<open>dict.copy\<close>);
  \<open>heap_update\<close> changes the dict behind a reference in place. \<open>setdefault\<close> and
  \<open>AList.update\<close> are \<open>dict.setdefault\<close> and \<open>d[k] = v\<close> on insertion-ordered dicts.
\<close>

type_synonym pydict = "(string \<times> string) list"
type_synonym heap = "pydict list"

definition new_dict :: "pydict \<Rightarrow> heap \<Rightarrow> nat \<times> heap" where
  "new_dict d h = (length h, h @ [d])"

definition heap_update :: "nat \<Rightarrow> (pydict \<Rightarrow> pydict) \<Rightarrow> heap \<Rightarrow> heap" where
  "heap_update a f h = h[a := f (h ! a)]"

definition setdefault :: "string \<Rightarrow> string \<Rightarrow> pydict \<Rightarrow> pydict" where
  "setdefault k v d = (if k \<in> fst ` set d then d else d @ [(k, v)])"

text \<open>
  \<open>build_request_headers\<close>. \<open>Helpers.get_user_agent\<close> and the client's identifier are
  not in src/: the string they give is the parameter \<open>user_agent\<close>. \<open>hdrs\<close> is the
  argument \<open>headers\<close>, \<open>None\<close> or a reference to the caller's dict (a reference of
  the program always points into the heap: \<open>p < length h\<close>). The result is the
  reference returned (or the exception raised) and the heap after the call.
\<close>

definition build_request_headers ::
  "string \<Rightarrow> nat option \<Rightarrow> ApiVersion \<Rightarrow> string option \<Rightarrow> heap \<Rightarrow> (error + nat) \<times> heap" where
  "build_request_headers user_agent hdrs api_version key h =
     (let (a, h1) = (case hdrs of None \<Rightarrow> new_dict [] h | Some p \<Rightarrow> new_dict (h ! p) h);
          h2 = heap_update a (setdefault ''Accept'' ''application/json'') h1;
          h3 = heap_update a (AList.update ''User-Agent'' user_agent) h2;
          h4 = (case key of
                  None \<Rightarrow> h3
                | Some k \<Rightarrow> heap_update a (AList.update ''Caplena-API-Key'' k) h3)
      in if api_version \<noteq> DEFAULT then
           (case version api_version of
              Inl e \<Rightarrow> (Inl e, h4)
            | Inr v \<Rightarrow> (Inr a, heap_update a (AList.update ''Caplena-API-Version'' v) h4))
         else (Inr a, h4))"

section \<open>The requestor and the request dispatcher\<close>

text \<open>
  \<open>ApiRequestor\<close> (src/caplena/api.py) holds the HTTP client. The client is not in src/:
  its \<open>request\<close> method is the parameter \<open>http_client\<close>, a function from the request
  to the response returned or the exception raised, and \<open>client_user_agent\<close> is the
  string that \<open>Helpers.get_user_agent\<close> gives for the client's identifier. The helpers
  that build the URI are not in src/ either, so a request carries the base URI, the path
  and the parameters that \<open>build_uri\<close> is called with.
\<close>

datatype HttpMethod = GET | POST | PUT | PATCH | DELETE

typedecl ApiFilter
typedecl ApiOrdering

record request =
  req_method :: HttpMethod
  req_base_uri :: string
  req_path :: string
  req_path_params :: "(string \<times> string) list option"
  req_query_params :: "(string \<times> string) list option"
  req_headers :: pydict
  req_json :: "val option"

record ApiRequestor =
  http_client :: "request \<Rightarrow> error + HttpResponse"
  client_user_agent :: string

text \<open>
  \<open>request_raw\<close> and the five verb methods of the requestor, as the dispatcher calls
  them: without \<open>headers\<close>, \<open>api_version\<close>, \<open>timeout\<close> and \<open>retry\<close>, which take their
  defaults (\<open>None\<close>, \<open>ApiVersion.DEFAULT\<close>, \<open>None\<close>, \<open>None\<close>). The headers are built
  in a heap of their own and read from the reference returned.
\<close>

definition request_raw ::
  "ApiRequestor \<Rightarrow> string \<Rightarrow> string \<Rightarrow> HttpMethod \<Rightarrow> string option \<Rightarrow>
   (string \<times> string) list option \<Rightarrow> (string \<times> string) list option \<Rightarrow> val option \<Rightarrow>
   error + HttpResponse" where
  "request_raw self base_uri path m key pp qp js =
     (case build_request_headers (client_user_agent self) None DEFAULT key [] of
        (Inl e, h) \<Rightarrow> Inl e
      | (Inr a, h) \<Rightarrow>
          http_client self
            \<lparr>req_method = m, req_base_uri = base_uri, req_path = path, req_path_params = pp,
             req_query_params = qp, req_headers = h ! a, req_json = js\<rparr>)"

definition ApiRequestor_get ::
  "ApiRequestor \<Rightarrow> string \<Rightarrow> string \<Rightarrow> string option \<Rightarrow> (string \<times> string) list option \<Rightarrow>
   (string \<times> string) list option \<Rightarrow> error + HttpResponse" where
  "ApiRequestor_get self base_uri path key pp qp = request_raw self base_uri path GET key pp qp None"

definition ApiRequestor_post ::
  "ApiRequestor \<Rightarrow> string \<Rightarrow> string \<Rightarrow> string option \<Rightarrow> (string \<times> string) list option \<Rightarrow>
   (string \<times> string) list option \<Rightarrow> val option \<Rightarrow> error + HttpResponse" where
  "ApiRequestor_post self base_uri path key pp qp js = request_raw self base_uri path POST key pp qp js"

definition ApiRequestor_put ::
  "ApiRequestor \<Rightarrow> string \<Rightarrow> string \<Rightarrow> string option \<Rightarrow> (string \<times> string) list option \<Rightarrow>
   (string \<times> string) list option \<Rightarrow> val option \<Rightarrow> error + HttpResponse" where
  "ApiRequestor_put self base_uri path key pp qp js = request_raw self base_uri path PUT key pp qp js"

definition ApiRequestor_patch ::
  "ApiRequestor \<Rightarrow> string \<Rightarrow> string \<Rightarrow> string option \<Rightarrow> (string \<times> string) list option \<Rightarrow>
   (string \<times> string) list option \<Rightarrow> val option \<Rightarrow> error + HttpResponse" where
  "ApiRequestor_patch self base_uri path key pp qp js = request_raw self base_uri path PATCH key pp qp js"

definition ApiRequestor_delete ::
  "ApiRequestor \<Rightarrow> string \<Rightarrow> string \<Rightarrow> string option \<Rightarrow> (string \<times> string) list option \<Rightarrow>
   (string \<times> string) list option \<Rightarrow> error + HttpResponse" where
  "ApiRequestor_delete self base_uri path key pp qp = request_raw self base_uri path DELETE key pp qp None"

text \<open>
  The keyword parameters of the requestor's verb methods: \<open>get\<close> and \<open>delete\<close> take
  \<open>verb_keywords\<close>, the other three take \<open>json\<close> as well. A call that passes a keyword
  the method does not have raises \<open>TypeError\<close> before the method runs.
\<close>

definition verb_keywords :: "string list" where
  "verb_keywords = [''base_uri'', ''path'', ''api_version'', ''api_key'', ''path_params'',
     ''query_params'', ''headers'', ''timeout'', ''retry'']"

definition body_verb_keywords :: "string list" where
  "body_verb_keywords = [''base_uri'', ''path'', ''api_version'', ''api_key'', ''path_params'',
     ''query_params'', ''json'', ''headers'', ''timeout'', ''retry'']"

definition unexpected_keyword :: "string \<Rightarrow> string list \<Rightarrow> string list \<Rightarrow> error option" where
  "unexpected_keyword fname accepted passed =
     (case filter (\<lambda>k. k \<notin> set accepted) passed of
        [] \<Rightarrow> None
      | k # _ \<Rightarrow> Some (TypeError (fname @ ''() got an unexpected keyword argument '' @ k)))"

text \<open>
  The class \<open>ApiRequestor\<close> defines \<open>build_uri\<close>, \<open>build_request_headers\<close>,
  \<open>request_raw\<close> and the five verb methods, and no \<open>build_exc\<close>: evaluating
  \<open>api_requestor.build_exc(response)\<close> raises \<open>AttributeError\<close> (\<open>Inl\<close>) and builds no
  exception object (\<open>Inr\<close>).
\<close>

definition build_exc :: "HttpResponse \<Rightarrow> error + error" where
  "build_exc response = Inl (AttributeError ''ApiRequestor object has no attribute build_exc'')"

text \<open>
  \<open>BaseController\<close> (src/caplena/endpoints/base\_endpoint.py) holds a configuration with
  the base URI, the API key and the requestor.
\<close>

record Configuration =
  api_base_uri :: string
  api_key :: "string option"
  api_requestor :: ApiRequestor

definition DEFAULT_ALLOWED_CODES :: "int set" where
  "DEFAULT_ALLOWED_CODES = {200}"

definition DEFAULT_ALLOWED_POST_CODES :: "int set" where
  "DEFAULT_ALLOWED_POST_CODES = {201}"

definition DEFAULT_ALLOWED_DELETE_CODES :: "int set" where
  "DEFAULT_ALLOWED_DELETE_CODES = {204}"

text \<open>
  The status check shared by the five verb methods:
  \<open>if response.status_code not in allowed_codes: raise build_exc(response)\<close>, then
  \<open>return response\<close>. The \<open>raise\<close> statement raises the exception object that its
  operand evaluates to, or propagates the exception that evaluating it raises. A keyword
  argument \<open>allowed_codes\<close> that the caller leaves out is \<open>None\<close> in the model and takes
  the method's default.
\<close>

definition check_status :: "int set \<Rightarrow> error + HttpResponse \<Rightarrow> error + HttpResponse" where
  "check_status allowed_codes r =
     (case r of
        Inl e \<Rightarrow> Inl e
      | Inr response \<Rightarrow>
          if status_code response \<notin> allowed_codes then
            (case build_exc response of Inl e \<Rightarrow> Inl e | Inr exc \<Rightarrow> Inl exc)
          else Inr response)"

text \<open>
  The five verb methods of the dispatcher. Each calls the requestor's method of the same
  name with keyword arguments; \<open>get\<close> passes \<open>filter\<close> and \<open>order_by\<close> among them.
\<close>

definition get ::
  "Configuration \<Rightarrow> string \<Rightarrow> int set option \<Rightarrow> (string \<times> string) list option \<Rightarrow>
   (string \<times> string) list option \<Rightarrow> ApiFilter option \<Rightarrow> ApiOrdering option \<Rightarrow> error + HttpResponse" where
  "get config p allowed_codes pp qp f ob =
     (case unexpected_keyword ''get'' verb_keywords
             [''base_uri'', ''path'', ''api_key'', ''path_params'', ''query_params'',
              ''filter'', ''order_by''] of
        Some e \<Rightarrow> Inl e
      | None \<Rightarrow>
          check_status (case allowed_codes of None \<Rightarrow> DEFAULT_ALLOWED_CODES | Some a \<Rightarrow> a)
            (ApiRequestor_get (api_requestor config) (api_base_uri config) p (api_key config) pp qp))"

definition post ::
  "Configuration \<Rightarrow> string \<Rightarrow> int set option \<Rightarrow> (string \<times> string) list option \<Rightarrow>
   (string \<times> string) list option \<Rightarrow> val option \<Rightarrow> error + HttpResponse" where
  "post config p allowed_codes pp qp js =
     (case unexpected_keyword ''post'' body_verb_keywords
             [''base_uri'', ''path'', ''api_key'', ''path_params'', ''query_params'', ''json''] of
        Some e \<Rightarrow> Inl e
      | None \<Rightarrow>
          check_status (case allowed_codes of None \<Rightarrow> DEFAULT_ALLOWED_POST_CODES | Some a \<Rightarrow> a)
            (ApiRequestor_post (api_requestor config) (api_base_uri config) p (api_key config) pp qp js))"

definition put ::
  "Configuration \<Rightarrow> string \<Rightarrow> int set option \<Rightarrow> (string \<times> string) list option \<Rightarrow>
   (string \<times> string) list option \<Rightarrow> val option \<Rightarrow> error + HttpResponse" where
  "put config p allowed_codes pp qp js =
     (case unexpected_keyword ''put'' body_verb_keywords
             [''base_uri'', ''path'', ''api_key'', ''path_params'', ''query_params'', ''json''] of
        Some e \<Rightarrow> Inl e
      | None \<Rightarrow>
          check_status (case allowed_codes of None \<Rightarrow> DEFAULT_ALLOWED_CODES | Some a \<Rightarrow> a)
            (ApiRequestor_put (api_requestor config) (api_base_uri config) p (api_key config) pp qp js))"

definition patch ::
  "Configuration \<Rightarrow> string \<Rightarrow> int set option \<Rightarrow> (string \<times> string) list option \<Rightarrow>
   (string \<times> string) list option \<Rightarrow> val option \<Rightarrow> error + HttpResponse" where
  "patch config p allowed_codes pp qp js =
     (case unexpected_keyword ''patch'' body_verb_keywords
             [''base_uri'', ''path'', ''api_key'', ''path_params'', ''query_params'', ''json''] of
        Some e \<Rightarrow> Inl e
      | None \<Rightarrow>
          check_status (case allowed_codes of None \<Rightarrow> DEFAULT_ALLOWED_CODES | Some a \<Rightarrow> a)
            (ApiRequestor_patch (api_requestor config) (api_base_uri config) p (api_key config) pp qp js))"

definition delete ::
  "Configuration \<Rightarrow> string \<Rightarrow> int set option \<Rightarrow> (string \<times> string) list option \<Rightarrow>
   (string \<times> string) list option \<Rightarrow> error + HttpResponse" where
  "delete config p allowed_codes pp qp =
     (case unexpected_keyword ''delete'' verb_keywords
             [''base_uri'', ''path'', ''api_key'', ''path_params'', ''query_params''] of
        Some e \<Rightarrow> Inl e
      | None \<Rightarrow>
          check_status (case allowed_codes of None \<Rightarrow> DEFAULT_ALLOWED_DELETE_CODES | Some a \<Rightarrow> a)
            (ApiRequestor_delete (api_requestor config) (api_base_uri config) p (api_key config) pp qp))"

section \<open>The resource object model\<close>

text \<open>
  Modelled from the spec: \<open>Helpers.partial_dict\<close> is not in src/. The spec has
  materialization "filter the input mapping down to declared fields, discard the rest":
  the entries of the input whose key is among the given keys, in the input's order.
\<close>

definition partial_dict :: "(string \<times> val) list \<Rightarrow> string list \<Rightarrow> (string \<times> val) list" where
  "partial_dict d keys = filter (\<lambda>kv. fst kv \<in> set keys) d"

text \<open>Assignments to the private slots of an object.\<close>

definition set_attrs :: "obj \<Rightarrow> (string \<times> val) list \<Rightarrow> obj" where
  "set_attrs self a = Obj (cls_fields self) (cls_mutable self) a (unpersisted_attributes self)
     (controller_slot self) (other self)"

definition set_unpersisted_attributes :: "obj \<Rightarrow> string set \<Rightarrow> obj" where
  "set_unpersisted_attributes self u = Obj (cls_fields self) (cls_mutable self) (attrs self) u
     (controller_slot self) (other self)"

definition set_controller_slot :: "obj \<Rightarrow> controller_ref option \<Rightarrow> obj" where
  "set_controller_slot self c = Obj (cls_fields self) (cls_mutable self) (attrs self)
     (unpersisted_attributes self) c (other self)"

definition set_other :: "obj \<Rightarrow> (string \<times> val) list \<Rightarrow> obj" where
  "set_other self x = Obj (cls_fields self) (cls_mutable self) (attrs self)
     (unpersisted_attributes self) (controller_slot self) x"

text \<open>
  \<open>refresh_from\<close>: \<open>partial = Helpers.partial_dict(attrs, self.__fields__)\<close>,
  \<open>validated = partial\<close>, then the two slots are assigned. Nothing is validated.
\<close>

definition refresh_from :: "obj \<Rightarrow> (string \<times> val) list \<Rightarrow> obj" where
  "refresh_from self as =
     (let partial = partial_dict as (cls_fields self);
          validated = partial
      in set_unpersisted_attributes (set_attrs self validated) {})"

text \<open>
  \<open>__init__(self, **attrs)\<close> for a class with the given \<open>__fields__\<close> and
  \<open>__mutable__\<close>: \<open>self._controller = None\<close>, then \<open>refresh_from\<close>. It has no
  \<open>raise\<close>; the result type keeps the place of one.
\<close>

definition BaseObject_init :: "string list \<Rightarrow> string list \<Rightarrow> (string \<times> val) list \<Rightarrow> error + obj" where
  "BaseObject_init fs ms as = Inr (refresh_from (Obj fs ms [] {} None []) as)"

text \<open>The property \<open>controller\<close>: reading it before one is attached raises.\<close>

definition controller :: "obj \<Rightarrow> error + controller_ref" where
  "controller self =
     (case controller_slot self of
        None \<Rightarrow> Inl (ValueError ''You cannot access the non-existing controller for this object.'')
      | Some c \<Rightarrow> Inr c)"

text \<open>
  \<open>_recursive_controller_set(self, attr, value)\<close>: on a nested object it assigns
  \<open>self._controller\<close>, the slot of the object the method is called on; on a list it
  visits the elements in order; on anything else it does nothing. The result is
  \<open>self\<close> after the call. (The \<open>print\<close> of the first branch writes a line to the
  standard output and is left out.)
\<close>

fun recursive_controller_set :: "obj \<Rightarrow> val \<Rightarrow> controller_ref option \<Rightarrow> obj"
  and recursive_controller_set_list :: "obj \<Rightarrow> val list \<Rightarrow> controller_ref option \<Rightarrow> obj" where
  "recursive_controller_set self (VObj a) v = set_controller_slot self v"
| "recursive_controller_set self (VList xs) v = recursive_controller_set_list self xs v"
| "recursive_controller_set self VNone v = self"
| "recursive_controller_set self (VBool b) v = self"
| "recursive_controller_set self (VInt i) v = self"
| "recursive_controller_set self (VStr s) v = self"
| "recursive_controller_set self (VDict d) v = self"
| "recursive_controller_set_list self [] v = self"
| "recursive_controller_set_list self (i # xs) v =
     recursive_controller_set_list (recursive_controller_set self i v) xs v"

text \<open>
  The setter of \<open>controller\<close>: \<open>self._controller = value\<close>, then for every declared
  field \<open>self._recursive_controller_set(self._attrs[field], value=value)\<close>; a declared
  field that is not a key of \<open>_attrs\<close> raises \<open>KeyError\<close>. A method that mutates
  \<open>self\<close> returns the exception raised, if any, and the object as the call leaves it.
\<close>

fun controller_loop :: "obj \<Rightarrow> string list \<Rightarrow> controller_ref option \<Rightarrow> error option \<times> obj" where
  "controller_loop self [] v = (None, self)"
| "controller_loop self (field # fs) v =
     (case map_of (attrs self) field of
        None \<Rightarrow> (Some (KeyError field), self)
      | Some a \<Rightarrow> controller_loop (recursive_controller_set self a v) fs v)"

definition controller_setter :: "obj \<Rightarrow> controller_ref option \<Rightarrow> error option \<times> obj" where
  "controller_setter self v = controller_loop (set_controller_slot self v) (cls_fields self) v"

text \<open>
  \<open>__setattr__\<close>, \<open>__getattr__\<close> (called for a name that normal lookup does not find)
  and \<open>__delattr__\<close>. The last branch of \<open>__setattr__\<close> is \<open>object.__setattr__\<close> on an
  ordinary attribute name.
\<close>

definition setattr :: "obj \<Rightarrow> string \<Rightarrow> val \<Rightarrow> error option \<times> obj" where
  "setattr self name v =
     (if name \<in> set (cls_fields self) \<and> name \<in> set (cls_mutable self) then
        (None, set_attrs (set_unpersisted_attributes self (insert name (unpersisted_attributes self)))
                 (AList.update name v (attrs self)))
      else if name \<in> set (cls_fields self) then
        (Some (AttributeError (name @ ''. HINT: You cannot modify this attribute, as it is immutable.'')), self)
      else (None, set_other self (AList.update name v (other self))))"

definition getattr :: "obj \<Rightarrow> string \<Rightarrow> error + val" where
  "getattr self name =
     (if name \<in> set (cls_fields self) then
        (case map_of (attrs self) name of None \<Rightarrow> Inl (KeyError name) | Some v \<Rightarrow> Inr v)
      else Inl (AttributeError name))"

definition delattr :: "obj \<Rightarrow> string \<Rightarrow> error option \<times> obj" where
  "delattr self name = (Some (ValueError (name @ ''. HINT: You cannot delete any attributes.'')), self)"

text \<open>
  \<open>dict\<close> and \<open>_recursive_dict\<close>: the export visits the declared fields in order,
  reads \<open>self._attrs[field]\<close> (\<open>KeyError\<close> when the key is absent) and stores the
  expanded value under the field's name. \<open>dict_loop\<close> is the \<open>for\<close> loop with the
  dict \<open>resource\<close> built so far.
\<close>

lemma size_map_of_attrs:
  "map_of a k = Some v \<Longrightarrow> size v < Suc (size_list (size_prod (\<lambda>_. 0) size) a)"
  by (induction a) (auto split: if_splits)

function dict :: "obj \<Rightarrow> error + (string \<times> val) list"
  and dict_loop :: "obj \<Rightarrow> string list \<Rightarrow> (string \<times> val) list \<Rightarrow> error + (string \<times> val) list"
  and recursive_dict :: "val \<Rightarrow> error + val"
  and recursive_dict_list :: "val list \<Rightarrow> error + val list" where
  "dict self = dict_loop self (cls_fields self) []"
| "dict_loop self [] resource = Inr resource"
| "dict_loop self (field # fs) resource =
     (case map_of (attrs self) field of
        None \<Rightarrow> Inl (KeyError field)
      | Some attr \<Rightarrow>
          (case recursive_dict attr of
             Inl e \<Rightarrow> Inl e
           | Inr v \<Rightarrow> dict_loop self fs (AList.update field v resource)))"
| "recursive_dict (VObj a) = (case dict a of Inl e \<Rightarrow> Inl e | Inr d \<Rightarrow> Inr (VDict d))"
| "recursive_dict (VList xs) =
     (case recursive_dict_list xs of Inl e \<Rightarrow> Inl e | Inr ys \<Rightarrow> Inr (VList ys))"
| "recursive_dict VNone = Inr VNone"
| "recursive_dict (VBool b) = Inr (VBool b)"
| "recursive_dict (VInt i) = Inr (VInt i)"
| "recursive_dict (VStr s) = Inr (VStr s)"
| "recursive_dict (VDict d) = Inr (VDict d)"
| "recursive_dict_list [] = Inr []"
| "recursive_dict_list (i # xs) =
     (case recursive_dict i of
        Inl e \<Rightarrow> Inl e
      | Inr y \<Rightarrow> (case recursive_dict_list xs of Inl e \<Rightarrow> Inl e | Inr ys \<Rightarrow> Inr (y # ys)))"
  by pat_completeness auto
termination
proof (relation "inv_image (less_than <*lex*> less_than)
    (\<lambda>x. case x of
       Inl (Inl self) \<Rightarrow> (size self, Suc (length (cls_fields self)))
     | Inl (Inr (self, fs, resource)) \<Rightarrow> (size self, length fs)
     | Inr (Inl v) \<Rightarrow> (size v, 0)
     | Inr (Inr xs) \<Rightarrow> (size_list size xs, 0))", goal_cases)
  case 1
  show ?case by (intro wf_inv_image wf_lex_prod wf_less_than)
next
  case (3 self field fs resource attr)
  from size_map_of_attrs [OF 3] show ?case by (cases self) simp
qed simp_all

text \<open>
  \<open>parse_obj\<close> of \<open>BaseObject\<close> itself raises; every resource class overrides it, and
  those classes are not part of this core, so \<open>build_obj\<close> takes the class's
  \<open>parse_obj\<close> as a parameter. \<open>build_obj\<close> parses and then assigns the property
  \<open>controller\<close>.
\<close>

definition parse_obj :: "string \<Rightarrow> val \<Rightarrow> error + obj" where
  "parse_obj cls_name ob =
     Inl (NotImplementedError (cls_name @ '' must implement the classmethod `_parse_obj`.''))"

definition build_obj :: "(val \<Rightarrow> error + obj) \<Rightarrow> val \<Rightarrow> controller_ref option \<Rightarrow> error + obj" where
  "build_obj cls_parse_obj ob c =
     (case cls_parse_obj ob of
        Inl e \<Rightarrow> Inl e
      | Inr instance \<Rightarrow>
          (case controller_setter instance c of
             (Some e, _) \<Rightarrow> Inl e
           | (None, instance') \<Rightarrow> Inr instance'))"



text \<open>
  \<open>_retrieve_json_or_raise\<close> and \<open>build_response\<close> of the dispatcher \<open>self\<close>; the
  response is returned as the access to \<open>json\<close> leaves it.
\<close>

definition retrieve_json_or_raise ::
  "(string \<Rightarrow> error + val) \<Rightarrow> HttpResponse \<Rightarrow> (error + val) \<times> HttpResponse" where
  "retrieve_json_or_raise loads response =
     (case json loads response of
        (Inl e, response') \<Rightarrow> (Inl e, response')
      | (Inr js, response') \<Rightarrow>
          if js = VNone then
            (case build_exc response' of
               Inl e \<Rightarrow> (Inl e, response')
             | Inr exc \<Rightarrow> (Inl exc, response'))
          else (Inr js, response'))"

definition build_response ::
  "controller_ref \<Rightarrow> (string \<Rightarrow> error + val) \<Rightarrow> HttpResponse \<Rightarrow> (val \<Rightarrow> error + obj) \<Rightarrow>
   (error + obj) \<times> HttpResponse" where
  "build_response self loads response resource_parse_obj =
     (case retrieve_json_or_raise loads response of
        (Inl e, response') \<Rightarrow> (Inl e, response')
      | (Inr js, response') \<Rightarrow> (build_obj resource_parse_obj js (Some self), response'))"

section \<open>Dispatcher: status classification\<close>

lemma check_status_Inr:
  "check_status allowed (Inr response) =
     (if status_code response \<in> allowed then Inr response
      else Inl (AttributeError ''ApiRequestor object has no attribute build_exc''))"
  by (simp add: check_status_def build_exc_def)

text \<open>
  What the four verb methods other than \<open>get\<close> do with a response of the requestor: a
  status in the allowed set (by default \<open>{201}\<close> for \<open>post\<close>, \<open>{200}\<close> for \<open>put\<close> and
  \<open>patch\<close>, \<open>{204}\<close> for \<open>delete\<close>) returns the response unchanged; any other status
  raises the \<open>AttributeError\<close> of the missing \<open>build_exc\<close>.
\<close>

lemma body_verbs_status_check:
  "request_raw (api_requestor config) (api_base_uri config) p POST (api_key config) pp qp js
     = Inr response \<Longrightarrow>
   post config p ac pp qp js =
     (if status_code response \<in> (case ac of None \<Rightarrow> {201} | Some a \<Rightarrow> a) then Inr response
      else Inl (AttributeError ''ApiRequestor object has no attribute build_exc''))"
  "request_raw (api_requestor config) (api_base_uri config) p PUT (api_key config) pp qp js
     = Inr response \<Longrightarrow>
   put config p ac pp qp js =
     (if status_code response \<in> (case ac of None \<Rightarrow> {200} | Some a \<Rightarrow> a) then Inr response
      else Inl (AttributeError ''ApiRequestor object has no attribute build_exc''))"
  "request_raw (api_requestor config) (api_base_uri config) p PATCH (api_key config) pp qp js
     = Inr response \<Longrightarrow>
   patch config p ac pp qp js =
     (if status_code response \<in> (case ac of None \<Rightarrow> {200} | Some a \<Rightarrow> a) then Inr response
      else Inl (AttributeError ''ApiRequestor object has no attribute build_exc''))"
  "request_raw (api_requestor config) (api_base_uri config) p DELETE (api_key config) pp qp None
     = Inr response \<Longrightarrow>
   delete config p ac pp qp =
     (if status_code response \<in> (case ac of None \<Rightarrow> {204} | Some a \<Rightarrow> a) then Inr response
      else Inl (AttributeError ''ApiRequestor object has no attribute build_exc''))"
  by (cases ac;
      simp add: post_def put_def patch_def delete_def check_status_Inr unexpected_keyword_def
        body_verb_keywords_def verb_keywords_def ApiRequestor_post_def ApiRequestor_put_def
        ApiRequestor_patch_def ApiRequestor_delete_def DEFAULT_ALLOWED_CODES_def
        DEFAULT_ALLOWED_POST_CODES_def DEFAULT_ALLOWED_DELETE_CODES_def)+

text \<open>
  Claim C1. The claim has every verb method return the response when its status is
  allowed and raise a typed API error otherwise. The code does not do that. \<open>get\<close>
  passes the keywords \<open>filter\<close> and \<open>order_by\<close>, which the requestor's \<open>get\<close> does not
  have, so every \<open>get\<close> raises \<open>TypeError\<close> before a request is sent. The other four
  build the error with \<open>api_requestor.build_exc\<close>, which the requestor does not have: a
  \<open>post\<close> that is answered with status 500 under the default allowed codes raises
  \<open>AttributeError\<close>, not an API error that carries the status.
\<close>

theorem dispatcher_raises_untyped_errors:
  "get config p ac pp qp f ob = Inl (TypeError ''get() got an unexpected keyword argument filter'')
   \<and> post \<lparr>api_base_uri = ''https://api.caplena.com/v2'', api_key = Some ''k'',
            api_requestor =
              \<lparr>http_client = (\<lambda>_. Inr (HttpResponse_init 500 ''Internal Server Error'' None None)),
               client_user_agent = ''caplena-python''\<rparr>\<rparr>
        ''/projects'' None None None None
      = Inl (AttributeError ''ApiRequestor object has no attribute build_exc'')"
  by (simp add: get_def post_def unexpected_keyword_def verb_keywords_def body_verb_keywords_def
      ApiRequestor_post_def request_raw_def build_request_headers_def new_dict_def
      heap_update_def setdefault_def check_status_Inr DEFAULT_ALLOWED_POST_CODES_def
      HttpResponse_init_def)

section \<open>Response envelope: the parsed body\<close>

text \<open>
  Claim C4. The claim has the parsed body computed from the raw text on the first
  access to \<open>json\<close>, \<open>None\<close> for an empty body, and cached afterwards. The code does
  not do that: \<open>__init__\<close> never creates \<open>_json\<close>, so on every response it builds the
  first line of the property, \<open>if self._json is not None\<close>, raises \<open>AttributeError\<close>,
  whatever the body is, and leaves the response as it was (so every later access raises
  too).
\<close>

theorem json_of_fresh_response_raises:
  "json loads (HttpResponse_init sc rs tx hs) =
     (Inl (AttributeError ''HttpResponse object has no attribute _json''),
      HttpResponse_init sc rs tx hs)"
  by (simp add: json_def HttpResponse_init_def)

text \<open>
  Were \<open>_json\<close> initialised to \<open>None\<close>, the first access to a non-empty body would still
  return \<open>None\<close>: the branch that parses stores the value and has no \<open>return\<close>. Only the
  second access returns the parsed value.
\<close>

lemma json_first_access_returns_None:
  "t \<noteq> [] \<Longrightarrow> loads t = Inr parsed \<Longrightarrow>
   json loads \<lparr>status_code = sc, reason = rs, resp_text = Some t, headers = hs,
               json_slot = Some VNone\<rparr>
     = (Inr VNone, \<lparr>status_code = sc, reason = rs, resp_text = Some t, headers = hs,
                    json_slot = Some parsed\<rparr>)"
  by (simp add: json_def)

lemma json_cached_access:
  "json_slot r = Some j \<Longrightarrow> j \<noteq> VNone \<Longrightarrow> json loads r = (Inr j, r)"
  by (simp add: json_def)

section \<open>Dispatcher: materialization of a response\<close>

text \<open>
  Claim C5. The claim has \<open>build_response\<close> raise the API error when the parsed body
  is absent and return the object built from the body otherwise. On every response that
  \<open>__init__\<close> builds, with a body or without one, \<open>build_response\<close> raises the
  \<open>AttributeError\<close> of the property \<open>json\<close> instead: neither the API error nor an
  object.
\<close>

theorem build_response_of_fresh_response_raises:
  "build_response self loads (HttpResponse_init sc rs tx hs) resource_parse_obj =
     (Inl (AttributeError ''HttpResponse object has no attribute _json''),
      HttpResponse_init sc rs tx hs)"
  by (simp add: build_response_def retrieve_json_or_raise_def json_def HttpResponse_init_def)

text \<open>
  With the value that \<open>json\<close> returns, \<open>_retrieve_json_or_raise\<close> hands anything but
  \<open>None\<close> to \<open>build_obj\<close> with the dispatcher as controller. On \<open>None\<close> it means to
  raise the API error and raises the \<open>AttributeError\<close> of the missing \<open>build_exc\<close>.
\<close>

lemma build_response_on_json_value:
  "json loads response = (Inr js, response') \<Longrightarrow>
   build_response self loads response resource_parse_obj =
     (if js = VNone
      then (Inl (AttributeError ''ApiRequestor object has no attribute build_exc''), response')
      else (build_obj resource_parse_obj js (Some self), response'))"
  by (simp add: build_response_def retrieve_json_or_raise_def build_exc_def)

section \<open>Resource objects: controller attachment\<close>

lemma recursive_controller_set_noop:
  "controller_slot self = v \<Longrightarrow> recursive_controller_set self a v = self"
  "controller_slot self = v \<Longrightarrow> recursive_controller_set_list self xs v = self"
  by (induction self a v and self xs v
        rule: recursive_controller_set_recursive_controller_set_list.induct)
     (auto simp: set_controller_slot_def)

lemma controller_loop_self:
  "controller_slot self = v \<Longrightarrow> snd (controller_loop self fs v) = self"
  by (induction fs) (auto simp: recursive_controller_set_noop split: option.splits)

text \<open>
  Whatever the fields hold, the setter changes nothing but the slot of the object it is
  called on: \<open>_attrs\<close>, and with it every nested object, is as before.
\<close>

lemma controller_setter_only_sets_slot:
  "snd (controller_setter self v) = set_controller_slot self v"
  by (simp add: controller_setter_def controller_loop_self set_controller_slot_def)

text \<open>The setter raises \<open>KeyError\<close> exactly when a declared field is not a key of \<open>_attrs\<close>.\<close>

lemma controller_loop_error:
  "controller_slot self = v \<Longrightarrow>
   (fst (controller_loop self fs v) = None) = (\<forall>f \<in> set fs. map_of (attrs self) f \<noteq> None)"
  by (induction fs) (auto simp: recursive_controller_set_noop split: option.splits)

lemma controller_setter_error:
  "(fst (controller_setter self v) = None) =
     (\<forall>f \<in> set (cls_fields self). map_of (attrs self) f \<noteq> None)"
  using controller_loop_error [of "set_controller_slot self v" v "cls_fields self"]
  by (simp add: controller_setter_def set_controller_slot_def)

text \<open>
  Claim C3. The claim has the assignment of a controller reach every nested object, so
  that the whole subtree shares it. The code does not do that:
  \<open>_recursive_controller_set\<close> assigns \<open>self._controller\<close> where it should assign the
  nested object's controller. After \<open>parent.controller = 7\<close> on a parent whose field
  \<open>child\<close> holds an object without a controller, the parent has controller 7 and the
  child still has none; the same holds for the two objects in the list of the field
  \<open>items\<close>.
\<close>

theorem controller_not_propagated:
  "controller_setter
     (Obj [''child''] []
        [(''child'', VObj (Obj [''name''] [] [(''name'', VStr ''x'')] {} None []))] {} None [])
     (Some 7)
   = (None,
      Obj [''child''] []
        [(''child'', VObj (Obj [''name''] [] [(''name'', VStr ''x'')] {} None []))] {} (Some 7) [])
   \<and> controller_setter
     (Obj [''items''] []
        [(''items'', VList [VObj (Obj [] [] [] {} None []), VObj (Obj [] [] [] {} None [])])]
        {} None [])
     (Some 7)
   = (None,
      Obj [''items''] []
        [(''items'', VList [VObj (Obj [] [] [] {} None []), VObj (Obj [] [] [] {} None [])])]
        {} (Some 7) [])"
  by (simp add: controller_setter_def set_controller_slot_def)

section \<open>Resource objects: writing and deleting fields\<close>

text \<open>
  Claim C6. For every object and every declared field name: a write to a field that is
  also in the mutable subset succeeds, stores the value under the name (the other
  entries stay) and adds the name to the dirty set; a write to a declared field outside
  the mutable subset raises and leaves the object, its dirty set and stored values
  included, as it was; deleting an attribute always raises and leaves the object as it
  was. The error the spec calls \<open>ImmutableFieldError\<close> is raised in the code as
  \<open>AttributeError\<close> with the hint "You cannot modify this attribute, as it is immutable"
  on a write, and as \<open>ValueError\<close> with the hint "You cannot delete any attributes" on a
  deletion.
\<close>

theorem setattr_mutability:
  "(name \<in> set (cls_fields self) \<and> name \<in> set (cls_mutable self) \<longrightarrow>
      fst (setattr self name v) = None
      \<and> map_of (attrs (snd (setattr self name v))) = (map_of (attrs self))(name \<mapsto> v)
      \<and> unpersisted_attributes (snd (setattr self name v))
          = insert name (unpersisted_attributes self))
   \<and> (name \<in> set (cls_fields self) \<and> name \<notin> set (cls_mutable self) \<longrightarrow>
      setattr self name v =
        (Some (AttributeError
           (name @ ''. HINT: You cannot modify this attribute, as it is immutable.'')), self))
   \<and> delattr self name =
        (Some (ValueError (name @ ''. HINT: You cannot delete any attributes.'')), self)"
  by (simp add: setattr_def delattr_def set_attrs_def set_unpersisted_attributes_def update_conv')

text \<open>
  The theorem on an object with the fields \<open>id\<close> and \<open>name\<close>, of which \<open>name\<close> is
  mutable: writing \<open>name\<close> stores the value and marks it dirty, writing \<open>id\<close> raises.
\<close>

theorem setattr_mutability_witness:
  "setattr (Obj [''id'', ''name''] [''name'']
              [(''id'', VStr ''r1''), (''name'', VStr ''Foo'')] {} None [])
     ''name'' (VStr ''Bar'')
   = (None, Obj [''id'', ''name''] [''name'']
              [(''id'', VStr ''r1''), (''name'', VStr ''Bar'')] {''name''} None [])
   \<and> setattr (Obj [''id'', ''name''] [''name'']
              [(''id'', VStr ''r1''), (''name'', VStr ''Foo'')] {} None [])
     ''id'' (VStr ''r2'')
   = (Some (AttributeError ''id. HINT: You cannot modify this attribute, as it is immutable.''),
      Obj [''id'', ''name''] [''name'']
        [(''id'', VStr ''r1''), (''name'', VStr ''Foo'')] {} None [])"
  using setattr_mutability [of "''name''"
      "Obj [''id'', ''name''] [''name''] [(''id'', VStr ''r1''), (''name'', VStr ''Foo'')] {} None []"
      "VStr ''Bar''"]
    setattr_mutability [of "''id''"
      "Obj [''id'', ''name''] [''name''] [(''id'', VStr ''r1''), (''name'', VStr ''Foo'')] {} None []"
      "VStr ''r2''"]
  by (simp add: setattr_def set_attrs_def set_unpersisted_attributes_def)

section \<open>Resource objects: materialization\<close>

lemma map_of_partial_dict:
  "map_of (partial_dict d keys) k = (if k \<in> set keys then map_of d k else None)"
  unfolding partial_dict_def by (induction d) auto

text \<open>
  Claim C7. For every input mapping, the object that the constructor builds stores the
  entries of the input whose keys are declared fields and no other (unknown keys are
  dropped, and nothing is raised). Materializing
  \<open>{"id": "r1", "name": "Foo", "unknown": 1}\<close> against the fields \<open>id\<close> and \<open>name\<close>
  gives an object whose \<open>dict()\<close> is \<open>{"id": "r1", "name": "Foo"}\<close>.
\<close>

theorem materialization_drops_unknown_fields:
  "BaseObject_init fs ms as = Inr (Obj fs ms (filter (\<lambda>kv. fst kv \<in> set fs) as) {} None [])
   \<and> (\<forall>k. map_of (attrs (Obj fs ms (filter (\<lambda>kv. fst kv \<in> set fs) as) {} None [])) k
          = (if k \<in> set fs then map_of as k else None))
   \<and> (case BaseObject_init [''id'', ''name''] []
              [(''id'', VStr ''r1''), (''name'', VStr ''Foo''), (''unknown'', VInt 1)] of
         Inl e \<Rightarrow> Inl e
       | Inr ob \<Rightarrow> dict ob)
       = Inr [(''id'', VStr ''r1''), (''name'', VStr ''Foo'')]"
  using map_of_partial_dict [of as fs]
  by (simp add: BaseObject_init_def refresh_from_def set_attrs_def
      set_unpersisted_attributes_def partial_dict_def)






section \<open>Request headers\<close>

lemma version_VER_2021_12_01: "version VER_2021_12_01 = Inr ''2021-12-01''"
  by (simp add: version_def)

lemma version_DEFAULT:
  "version DEFAULT = Inl (ValueError ''Cannot convert `DEFAULT` to a valid version string.'')"
  by (simp add: version_def)

lemma heap_update_fresh: "heap_update (length h) f (h @ [d]) = h @ [f d]"
  by (simp add: heap_update_def)

text \<open>
  The call never raises. It allocates one dict, behind the reference it returns, and
  leaves every dict of the heap it was given as it was; the new dict is the caller's
  (or the empty one) after the four steps of the source.
\<close>

lemma build_request_headers_eq:
  "build_request_headers ua hdrs ver key h =
     (Inr (length h),
      h @ [(if ver \<noteq> DEFAULT then AList.update ''Caplena-API-Version'' ''2021-12-01'' else id)
            ((case key of None \<Rightarrow> id | Some k \<Rightarrow> AList.update ''Caplena-API-Key'' k)
              (AList.update ''User-Agent'' ua
                (setdefault ''Accept'' ''application/json''
                  (case hdrs of None \<Rightarrow> [] | Some p \<Rightarrow> h ! p))))])"
  by (cases ver; cases key; cases hdrs)
     (simp_all add: build_request_headers_def new_dict_def heap_update_fresh version_def)

lemma map_of_setdefault:
  "map_of (setdefault k v d) x =
     (if x = k then Some (case map_of d k of None \<Rightarrow> v | Some w \<Rightarrow> w) else map_of d x)"
proof (cases "k \<in> fst ` set d")
  case True
  then obtain w where "map_of d k = Some w"
    by (metis map_of_eq_None_iff not_Some_eq)
  with True show ?thesis by (simp add: setdefault_def)
next
  case False
  then have "map_of d k = None" by (simp add: map_of_eq_None_iff)
  with False show ?thesis
    by (simp add: setdefault_def map_add_def split: option.splits)
qed

text \<open>Every entry of the returned dict, by its key.\<close>

lemma build_request_headers_lookup:
  "\<exists>d. build_request_headers ua hdrs ver key h = (Inr (length h), h @ [d])
     \<and> (\<forall>x. map_of d x =
          (if x = ''Caplena-API-Version'' \<and> ver \<noteq> DEFAULT then Some ''2021-12-01''
           else if x = ''Caplena-API-Key'' \<and> key \<noteq> None then key
           else if x = ''User-Agent'' then Some ua
           else if x = ''Accept'' then
             Some (case map_of (case hdrs of None \<Rightarrow> [] | Some p \<Rightarrow> h ! p) ''Accept'' of
                     None \<Rightarrow> ''application/json'' | Some w \<Rightarrow> w)
           else map_of (case hdrs of None \<Rightarrow> [] | Some p \<Rightarrow> h ! p) x))"
  unfolding build_request_headers_eq
  by (cases ver; cases key) (simp_all add: update_conv' map_of_setdefault)

text \<open>
  Claim C2. The claim has the returned headers never hold a caller-supplied value for
  \<open>User-Agent\<close>, \<open>Caplena-API-Key\<close> or \<open>Caplena-API-Version\<close>, whatever \<open>api_key\<close>
  (\<open>None\<close> included) and \<open>api_version\<close> are; the source's comment says the same ("we do
  not allow clients to overwrite user-agent, caplena-api-key or caplena-api-version").
  The code writes the key only \<open>if api_key is not None\<close> and never removes an entry:
  with \<open>headers = {"Caplena-API-Key": "evil"}\<close> and \<open>api_key = None\<close> the returned
  headers hold \<open>"Caplena-API-Key": "evil"\<close>.
\<close>

theorem reserved_key_spoofed:
  "build_request_headers ua (Some 0) DEFAULT None [[(''Caplena-API-Key'', ''evil'')]] =
     (Inr 1, [[(''Caplena-API-Key'', ''evil'')],
              [(''Caplena-API-Key'', ''evil''), (''Accept'', ''application/json''),
               (''User-Agent'', ua)]])"
  by (simp add: build_request_headers_eq setdefault_def)

text \<open>
  The claim's example, with \<open>api_key = "real"\<close>, holds: the key is overwritten. So is
  every caller-supplied \<open>User-Agent\<close>.
\<close>

lemma api_key_overwritten:
  "build_request_headers ua (Some 0) ver (Some ''real'') [[(''Caplena-API-Key'', ''evil'')]]
     = (r, h') \<Longrightarrow>
   r = Inr 1 \<and> map_of (h' ! 1) ''Caplena-API-Key'' = Some ''real''"
  using build_request_headers_lookup
    [of ua "Some 0" ver "Some ''real''" "[[(''Caplena-API-Key'', ''evil'')]]"]
  by auto

lemma user_agent_overwritten:
  "build_request_headers ua hdrs ver key h = (r, h') \<Longrightarrow>
   r = Inr (length h) \<and> map_of (h' ! length h) ''User-Agent'' = Some ua"
  using build_request_headers_lookup [of ua hdrs ver key h]
  by auto

text \<open>
  Claim C9. The claim has the \<open>Caplena-API-Version\<close> header left out exactly when the
  version is the default one, and hold the formatted version name otherwise. The second
  half holds (lemmas \<open>version_VER_2021_12_01\<close> and \<open>api_version_header\<close> below). The
  first fails through the defect of claim C2: with the default version the code writes
  no version header but keeps the caller's, so with
  \<open>headers = {"Caplena-API-Version": "1999-01-01"}\<close> and \<open>api_version = DEFAULT\<close> the
  returned headers hold a version header.
\<close>

theorem version_header_spoofed:
  "build_request_headers ua (Some 0) DEFAULT None
     [[(''Caplena-API-Version'', ''1999-01-01'')]] =
     (Inr 1, [[(''Caplena-API-Version'', ''1999-01-01'')],
              [(''Caplena-API-Version'', ''1999-01-01''), (''Accept'', ''application/json''),
               (''User-Agent'', ua)]])"
  by (simp add: build_request_headers_eq setdefault_def)

text \<open>
  What the code does with the version header: a version other than the default gives the
  header the value \<open>2021-12-01\<close> (the name without \<open>VER_\<close>, its underscores replaced
  by hyphens); the default version leaves the entry as the caller's dict has it, absent
  when the caller gave none.
\<close>

lemma api_version_header:
  "build_request_headers ua hdrs ver key h = (r, h') \<Longrightarrow>
   map_of (h' ! length h) ''Caplena-API-Version'' =
     (if ver \<noteq> DEFAULT then Some ''2021-12-01''
      else map_of (case hdrs of None \<Rightarrow> [] | Some p \<Rightarrow> h ! p) ''Caplena-API-Version'')"
  using build_request_headers_lookup [of ua hdrs ver key h]
  by auto

text \<open>
  Claim C10. For every heap, every caller's dict and all arguments: the call returns a
  reference to a new dict and the heap it was given is unchanged (the caller's dict is
  not mutated); every entry of the caller's dict whose key is not one of the three
  reserved headers is in the returned dict with the same value; and \<open>Accept\<close> is the
  caller's value when the caller supplied one, \<open>application/json\<close> only otherwise.
\<close>

theorem build_request_headers_frame:
  "\<exists>d. build_request_headers ua hdrs ver key h = (Inr (length h), h @ [d])
     \<and> (\<forall>x v. x \<notin> {''User-Agent'', ''Caplena-API-Key'', ''Caplena-API-Version''} \<longrightarrow>
            map_of (case hdrs of None \<Rightarrow> [] | Some p \<Rightarrow> h ! p) x = Some v \<longrightarrow>
            map_of d x = Some v)
     \<and> (map_of d ''Accept'' =
           (case map_of (case hdrs of None \<Rightarrow> [] | Some p \<Rightarrow> h ! p) ''Accept'' of
              None \<Rightarrow> Some ''application/json'' | Some w \<Rightarrow> Some w))"
proof -
  obtain d where d: "build_request_headers ua hdrs ver key h = (Inr (length h), h @ [d])"
    and l: "\<And>x. map_of d x =
          (if x = ''Caplena-API-Version'' \<and> ver \<noteq> DEFAULT then Some ''2021-12-01''
           else if x = ''Caplena-API-Key'' \<and> key \<noteq> None then key
           else if x = ''User-Agent'' then Some ua
           else if x = ''Accept'' then
             Some (case map_of (case hdrs of None \<Rightarrow> [] | Some p \<Rightarrow> h ! p) ''Accept'' of
                     None \<Rightarrow> ''application/json'' | Some w \<Rightarrow> w)
           else map_of (case hdrs of None \<Rightarrow> [] | Some p \<Rightarrow> h ! p) x)"
    using build_request_headers_lookup [of ua hdrs ver key h] by blast
  have "\<forall>x v. x \<notin> {''User-Agent'', ''Caplena-API-Key'', ''Caplena-API-Version''} \<longrightarrow>
            map_of (case hdrs of None \<Rightarrow> [] | Some p \<Rightarrow> h ! p) x = Some v \<longrightarrow>
            map_of d x = Some v"
    by (simp add: l)
  moreover have "map_of d ''Accept'' =
           (case map_of (case hdrs of None \<Rightarrow> [] | Some p \<Rightarrow> h ! p) ''Accept'' of
              None \<Rightarrow> Some ''application/json'' | Some w \<Rightarrow> Some w)"
    by (simp add: l split: option.splits)
  ultimately show ?thesis using d by blast
qed

text \<open>
  The theorem on a caller's dict with an \<open>Accept\<close> entry and one more entry (both are in
  the returned dict, the caller's dict is as before), and on a call without headers
  (\<open>Accept\<close> is \<open>application/json\<close>).
\<close>

theorem build_request_headers_frame_witness:
  "build_request_headers ''caplena-python'' (Some 0) VER_2021_12_01 (Some ''real'')
     [[(''Accept'', ''text/csv''), (''X-Trace'', ''abc'')]]
   = (Inr 1, [[(''Accept'', ''text/csv''), (''X-Trace'', ''abc'')],
              [(''Accept'', ''text/csv''), (''X-Trace'', ''abc''),
               (''User-Agent'', ''caplena-python''), (''Caplena-API-Key'', ''real''),
               (''Caplena-API-Version'', ''2021-12-01'')]])
   \<and> build_request_headers ''caplena-python'' None DEFAULT None []
   = (Inr 0, [[(''Accept'', ''application/json''), (''User-Agent'', ''caplena-python'')]])"
  using build_request_headers_frame [of "''caplena-python''" "Some 0" VER_2021_12_01
      "Some ''real''" "[[(''Accept'', ''text/csv''), (''X-Trace'', ''abc'')]]"]
    build_request_headers_frame [of "''caplena-python''" None DEFAULT None "[]"]
  by (simp add: build_request_headers_eq setdefault_def)

end
